theory Spec2Isabelle
  imports Main
begin

section \<open>The conjugation schema of \<open>conjugation_data.ts\<close>\<close>

text \<open>
  The module consists of one interface (\<open>ConjugationItem\<close>), three unions of string
  literals (\<open>WritingSystem\<close>, \<open>VerbForm\<close>, \<open>WordType\<close>) and one constant,
  the array \<open>conjugationData\<close>, whose literal has no element. It has no function.

  The development has two layers. The typed layer is what a type-checked TypeScript
  program sees: the interface as records, the literal unions as datatypes, the array as
  a list. The value layer is what exists when the program runs: JavaScript values, the
  declared types as type expressions, and the relation "this value has this type" under
  strict null checks (\<open>null\<close> and \<open>undefined\<close> belong only to the types that name
  them). A TypeScript \<open>string\<close> is modelled as a \<open>string\<close>; the development
  only compares strings and tests them for emptiness.
\<close>

subsection \<open>Typed layer\<close>

text \<open>
  The object type \<open>{ kanji: string; hiragana: string }\<close>, which the interface writes
  out six times (lines 4-7, 13-16, 17-20, 21-24, 25-28 and 29-32); TypeScript compares
  object types by structure, so the six are one type.
\<close>

record KanjiHiragana =
  kanji :: string
  hiragana :: string

text \<open>\<open>WordType\<close> (lines 37-46), one constructor for each literal, in source order.\<close>

datatype WordType =
    verb_ru
  | verb_u
  | verb_irregular
  | noun
  | adjective_i
  | adjective_na
  | adverb
  | particle
  | expression

text \<open>\<open>WritingSystem\<close> (line 35) and \<open>VerbForm\<close> (line 36).\<close>

datatype WritingSystem = WritingSystem_kanji | WritingSystem_hiragana

datatype VerbForm = VerbForm_dictionary | VerbForm_masu

text \<open>
  The type of the property \<open>Word\<close> (lines 2-11). The property \<open>definition\<close> is
  written \<open>definition'\<close>.
\<close>

record WordInfo =
  dictionary :: KanjiHiragana
  definition' :: string
  type :: WordType

text \<open>
  \<open>ConjugationItem\<close> (lines 1-33). The properties whose names have a space are written
  with an underscore; \<open>"Te Form"\<close>, of type \<open>{ ... } | null\<close>, is an option.
\<close>

record ConjugationItem =
  Word :: WordInfo
  Present_Affirmative :: KanjiHiragana
  Present_Negative :: KanjiHiragana
  Past_Affirmative :: KanjiHiragana
  Past_Negative :: KanjiHiragana
  Te_Form :: "KanjiHiragana option"

text \<open>\<open>conjugationData\<close> (lines 49-50): the array literal \<open>[ ]\<close>.\<close>

definition conjugationData :: "ConjugationItem list" where
  "conjugationData = []"

text \<open>The string each constructor stands for, as the source spells it.\<close>

fun WordType_literal :: "WordType \<Rightarrow> string" where
  "WordType_literal verb_ru = ''verb-ru''"
| "WordType_literal verb_u = ''verb-u''"
| "WordType_literal verb_irregular = ''verb-irregular''"
| "WordType_literal noun = ''noun''"
| "WordType_literal adjective_i = ''adjective-i''"
| "WordType_literal adjective_na = ''adjective-na''"
| "WordType_literal adverb = ''adverb''"
| "WordType_literal particle = ''particle''"
| "WordType_literal expression = ''expression''"

fun WritingSystem_literal :: "WritingSystem \<Rightarrow> string" where
  "WritingSystem_literal WritingSystem_kanji = ''kanji''"
| "WritingSystem_literal WritingSystem_hiragana = ''hiragana''"

fun VerbForm_literal :: "VerbForm \<Rightarrow> string" where
  "VerbForm_literal VerbForm_dictionary = ''dictionary''"
| "VerbForm_literal VerbForm_masu = ''masu''"

subsection \<open>Value layer\<close>

text \<open>
  The JavaScript values the declarations can tell apart: \<open>undefined\<close>, \<open>null\<close>,
  strings, and objects as lists of properties (the first binding of a name is the one
  read).
\<close>

datatype jsval =
    JUndefined
  | JNull
  | JString string
  | JObject "(string \<times> jsval) list"

text \<open>The type expressions the module uses.\<close>

datatype tstype =
    TString
  | TNull
  | TLiteral string
  | TUnion "tstype list"
  | TObject "(string \<times> tstype) list"

text \<open>
  Reading a property; one the object does not have reads as \<open>undefined\<close>. So does,
  here, a property of a value that is not an object (JavaScript raises a \<open>TypeError\<close>
  when the value is \<open>null\<close> or \<open>undefined\<close>); no value of an object type is such a
  value.
\<close>

fun get_property :: "(string \<times> jsval) list \<Rightarrow> string \<Rightarrow> jsval" where
  "get_property ps k = (case map_of ps k of Some v \<Rightarrow> v | None \<Rightarrow> JUndefined)"

fun read_property :: "jsval \<Rightarrow> string \<Rightarrow> jsval" where
  "read_property (JObject ps) k = get_property ps k"
| "read_property v k = JUndefined"

text \<open>
  \<open>conforms t v\<close>: the value \<open>v\<close> has the type \<open>t\<close>. An object type asks for each
  property it declares (none of the module's is optional) and allows others; a union
  asks for one of its members.
\<close>

fun conforms :: "tstype \<Rightarrow> jsval \<Rightarrow> bool"
  and conforms_any :: "tstype list \<Rightarrow> jsval \<Rightarrow> bool"
  and conforms_fields :: "(string \<times> tstype) list \<Rightarrow> (string \<times> jsval) list \<Rightarrow> bool"
where
  "conforms TString v = (case v of JString s \<Rightarrow> True | _ \<Rightarrow> False)"
| "conforms TNull v = (v = JNull)"
| "conforms (TLiteral s) v = (v = JString s)"
| "conforms (TUnion ts) v = conforms_any ts v"
| "conforms (TObject fs) v = (case v of JObject ps \<Rightarrow> conforms_fields fs ps | _ \<Rightarrow> False)"
| "conforms_any [] v = False"
| "conforms_any (t # ts) v = (conforms t v \<or> conforms_any ts v)"
| "conforms_fields [] ps = True"
| "conforms_fields ((k, t) # fs) ps = (conforms t (get_property ps k) \<and> conforms_fields fs ps)"

text \<open>The declarations of the module, as type expressions.\<close>

definition KanjiHiragana_shape :: tstype where
  "KanjiHiragana_shape = TObject [(''kanji'', TString), (''hiragana'', TString)]"

definition WritingSystem_shape :: tstype where
  "WritingSystem_shape = TUnion [TLiteral ''kanji'', TLiteral ''hiragana'']"

definition VerbForm_shape :: tstype where
  "VerbForm_shape = TUnion [TLiteral ''dictionary'', TLiteral ''masu'']"

definition WordType_shape :: tstype where
  "WordType_shape = TUnion
     [TLiteral ''verb-ru'',
      TLiteral ''verb-u'',
      TLiteral ''verb-irregular'',
      TLiteral ''noun'',
      TLiteral ''adjective-i'',
      TLiteral ''adjective-na'',
      TLiteral ''adverb'',
      TLiteral ''particle'',
      TLiteral ''expression'']"

definition WordInfo_shape :: tstype where
  "WordInfo_shape = TObject
     [(''dictionary'', KanjiHiragana_shape),
      (''definition'', TString),
      (''type'', WordType_shape)]"

definition ConjugationItem_shape :: tstype where
  "ConjugationItem_shape = TObject
     [(''Word'', WordInfo_shape),
      (''Present Affirmative'', KanjiHiragana_shape),
      (''Present Negative'', KanjiHiragana_shape),
      (''Past Affirmative'', KanjiHiragana_shape),
      (''Past Negative'', KanjiHiragana_shape),
      (''Te Form'', TUnion [KanjiHiragana_shape, TNull])]"

text \<open>The names of the four conjugation slots declared without \<open>| null\<close>.\<close>

definition required_slots :: "string list" where
  "required_slots =
     [''Present Affirmative'', ''Present Negative'', ''Past Affirmative'', ''Past Negative'']"

text \<open>The object a typed value is at run time.\<close>

definition encode_KanjiHiragana :: "KanjiHiragana \<Rightarrow> jsval" where
  "encode_KanjiHiragana p =
     JObject [(''kanji'', JString (kanji p)), (''hiragana'', JString (hiragana p))]"

definition encode_WordInfo :: "WordInfo \<Rightarrow> jsval" where
  "encode_WordInfo w = JObject
     [(''dictionary'', encode_KanjiHiragana (dictionary w)),
      (''definition'', JString (definition' w)),
      (''type'', JString (WordType_literal (type w)))]"

definition encode_ConjugationItem :: "ConjugationItem \<Rightarrow> jsval" where
  "encode_ConjugationItem e = JObject
     [(''Word'', encode_WordInfo (Word e)),
      (''Present Affirmative'', encode_KanjiHiragana (Present_Affirmative e)),
      (''Present Negative'', encode_KanjiHiragana (Present_Negative e)),
      (''Past Affirmative'', encode_KanjiHiragana (Past_Affirmative e)),
      (''Past Negative'', encode_KanjiHiragana (Past_Negative e)),
      (''Te Form'', (case Te_Form e of None \<Rightarrow> JNull | Some p \<Rightarrow> encode_KanjiHiragana p))]"

text \<open>The nine constructors of \<open>WordType\<close>, in source order.\<close>

definition WordTypes :: "WordType list" where
  "WordTypes =
     [verb_ru, verb_u, verb_irregular, noun, adjective_i, adjective_na, adverb, particle,
      expression]"

subsection \<open>The declarations of the module and the exported array\<close>




text \<open>
  The two array types of TypeScript, \<open>T[]\<close> and \<open>readonly T[]\<close>, and the type line 49
  declares the exported array with: \<open>ConjugationItem[]\<close>. The array is not frozen
  either.
\<close>

datatype array_type = Array_type tstype | Readonly_array_type tstype


text \<open>
  \<open>importer_step a s s'\<close>: code that imports an array of type \<open>a\<close> takes it from \<open>s\<close>
  to \<open>s'\<close>. An array of type \<open>T[]\<close> has \<open>push\<close>, which takes a value of type \<open>T\<close>;
  an array of type \<open>readonly T[]\<close> has no method that changes it, so the relation has
  no rule for it.
\<close>

inductive importer_step ::
  "array_type \<Rightarrow> ConjugationItem list \<Rightarrow> ConjugationItem list \<Rightarrow> bool"
where
  push: "conforms t (encode_ConjugationItem e) \<Longrightarrow> importer_step (Array_type t) s (s @ [e])"

subsection \<open>Sample entries\<close>

text \<open>
  The verb "to eat" (taberu), a ru-verb with all five forms. The spellings are
  transliterated; the kanji spellings carry the mark \<open>k:\<close> so that they differ from
  the hiragana ones.
\<close>

definition taberu :: ConjugationItem where
  "taberu =
     \<lparr>Word = \<lparr>dictionary = \<lparr>kanji = ''k:taberu'', hiragana = ''taberu''\<rparr>,
              definition' = ''to eat'',
              type = verb_ru\<rparr>,
      Present_Affirmative = \<lparr>kanji = ''k:tabemasu'', hiragana = ''tabemasu''\<rparr>,
      Present_Negative = \<lparr>kanji = ''k:tabemasen'', hiragana = ''tabemasen''\<rparr>,
      Past_Affirmative = \<lparr>kanji = ''k:tabemashita'', hiragana = ''tabemashita''\<rparr>,
      Past_Negative = \<lparr>kanji = ''k:tabemasen deshita'', hiragana = ''tabemasen deshita''\<rparr>,
      Te_Form = Some \<lparr>kanji = ''k:tabete'', hiragana = ''tabete''\<rparr>\<rparr>"

text \<open>
  The particle "wa": it has no kanji spelling, it does not conjugate (the four forms
  are pairs of empty strings) and it has no Te form.
\<close>

definition wa :: ConjugationItem where
  "wa =
     \<lparr>Word = \<lparr>dictionary = \<lparr>kanji = '''', hiragana = ''wa''\<rparr>,
              definition' = ''topic marker'',
              type = particle\<rparr>,
      Present_Affirmative = \<lparr>kanji = '''', hiragana = ''''\<rparr>,
      Present_Negative = \<lparr>kanji = '''', hiragana = ''''\<rparr>,
      Past_Affirmative = \<lparr>kanji = '''', hiragana = ''''\<rparr>,
      Past_Negative = \<lparr>kanji = '''', hiragana = ''''\<rparr>,
      Te_Form = None\<rparr>"

text \<open>An entry in which every string is empty.\<close>

definition blank :: ConjugationItem where
  "blank =
     \<lparr>Word = \<lparr>dictionary = \<lparr>kanji = '''', hiragana = ''''\<rparr>,
              definition' = '''',
              type = noun\<rparr>,
      Present_Affirmative = \<lparr>kanji = '''', hiragana = ''''\<rparr>,
      Present_Negative = \<lparr>kanji = '''', hiragana = ''''\<rparr>,
      Past_Affirmative = \<lparr>kanji = '''', hiragana = ''''\<rparr>,
      Past_Negative = \<lparr>kanji = '''', hiragana = ''''\<rparr>,
      Te_Form = None\<rparr>"

section \<open>What the types mean\<close>

subsection \<open>The literal unions\<close>

lemma WordType_in_WordTypes: "t \<in> set WordTypes"
  by (cases t) (simp_all add: WordTypes_def)

lemma set_WordTypes: "set WordTypes = UNIV"
  using WordType_in_WordTypes by blast

lemma distinct_WordTypes: "distinct WordTypes"
  by (simp add: WordTypes_def)

lemma length_WordTypes: "length WordTypes = 9"
  by (simp add: WordTypes_def)

lemma inj_WordType_literal: "inj WordType_literal"
proof (rule injI)
  fix x y
  assume "WordType_literal x = WordType_literal y"
  then show "x = y"
    by (cases x; cases y) simp_all
qed

lemma conforms_any_literals:
  "conforms_any (map (\<lambda>x. TLiteral (f x)) xs) v \<longleftrightarrow> v \<in> JString ` f ` set xs"
  by (induction xs) auto

lemma WordType_shape_literals:
  "WordType_shape = TUnion (map (\<lambda>t. TLiteral (WordType_literal t)) WordTypes)"
  by (simp add: WordType_shape_def WordTypes_def)

text \<open>A value has the type \<open>WordType\<close> exactly when it is the string of a constructor.\<close>

lemma conforms_WordType_iff:
  "conforms WordType_shape v \<longleftrightarrow> (\<exists>t. v = JString (WordType_literal t))"
proof -
  have "conforms WordType_shape v \<longleftrightarrow> v \<in> JString ` WordType_literal ` set WordTypes"
    by (simp only: WordType_shape_literals conforms.simps conforms_any_literals)
  then show ?thesis
    unfolding set_WordTypes by blast
qed

lemma UNIV_WritingSystem:
  "(UNIV :: WritingSystem set) = {WritingSystem_kanji, WritingSystem_hiragana}"
proof -
  have "x \<in> {WritingSystem_kanji, WritingSystem_hiragana}" for x
    by (cases x) simp_all
  then show ?thesis by blast
qed

lemma UNIV_VerbForm: "(UNIV :: VerbForm set) = {VerbForm_dictionary, VerbForm_masu}"
proof -
  have "x \<in> {VerbForm_dictionary, VerbForm_masu}" for x
    by (cases x) simp_all
  then show ?thesis by blast
qed

subsection \<open>The object types\<close>

lemma conforms_TString_iff: "conforms TString v \<longleftrightarrow> (\<exists>s. v = JString s)"
  by (cases v) simp_all

lemma conforms_TObject_is_object: "conforms (TObject fs) v \<Longrightarrow> \<exists>ps. v = JObject ps"
  by (cases v) simp_all

lemma conforms_KanjiHiragana_iff:
  "conforms KanjiHiragana_shape v \<longleftrightarrow>
     (\<exists>k h. read_property v ''kanji'' = JString k \<and> read_property v ''hiragana'' = JString h)"
  by (cases v)
    (simp_all add: KanjiHiragana_shape_def conforms_TString_iff
      del: conforms.simps(1) get_property.simps)

lemma conforms_WordInfo_iff:
  "conforms WordInfo_shape v \<longleftrightarrow>
     conforms KanjiHiragana_shape (read_property v ''dictionary'')
     \<and> conforms TString (read_property v ''definition'')
     \<and> conforms WordType_shape (read_property v ''type'')"
proof (cases v)
  case (JObject ps)
  then show ?thesis
    by (simp add: WordInfo_shape_def del: conforms.simps(1) get_property.simps)
qed (simp_all add: WordInfo_shape_def KanjiHiragana_shape_def)

lemma conforms_ConjugationItem_iff:
  "conforms ConjugationItem_shape v \<longleftrightarrow>
     conforms WordInfo_shape (read_property v ''Word'')
     \<and> conforms KanjiHiragana_shape (read_property v ''Present Affirmative'')
     \<and> conforms KanjiHiragana_shape (read_property v ''Present Negative'')
     \<and> conforms KanjiHiragana_shape (read_property v ''Past Affirmative'')
     \<and> conforms KanjiHiragana_shape (read_property v ''Past Negative'')
     \<and> (conforms KanjiHiragana_shape (read_property v ''Te Form'')
          \<or> read_property v ''Te Form'' = JNull)"
proof (cases v)
  case (JObject ps)
  then show ?thesis
    by (simp add: ConjugationItem_shape_def del: get_property.simps)
qed (simp_all add: ConjugationItem_shape_def WordInfo_shape_def)

lemma conforms_required_slots:
  assumes "conforms ConjugationItem_shape v"
  shows "\<forall>s \<in> set required_slots. conforms KanjiHiragana_shape (read_property v s)"
  using assms unfolding conforms_ConjugationItem_iff by (simp add: required_slots_def)

lemma conforms_KanjiHiragana_is_object:
  "conforms KanjiHiragana_shape v \<Longrightarrow> v \<noteq> JNull \<and> v \<noteq> JUndefined"
  unfolding KanjiHiragana_shape_def by (auto dest: conforms_TObject_is_object)

lemma conforms_WordInfo_is_object:
  "conforms WordInfo_shape v \<Longrightarrow> v \<noteq> JNull \<and> v \<noteq> JUndefined"
  unfolding WordInfo_shape_def by (auto dest: conforms_TObject_is_object)

text \<open>An entry whose Te form has only one of the two fields is not of the type.\<close>

lemma partial_pair_refused:
  "\<not> conforms ConjugationItem_shape
       (JObject ((''Te Form'', JObject [(''kanji'', JString k)]) # ps))"
  "\<not> conforms ConjugationItem_shape
       (JObject ((''Te Form'', JObject [(''hiragana'', JString h)]) # ps))"
  by (simp_all add: conforms_ConjugationItem_iff conforms_KanjiHiragana_iff)

subsection \<open>Typed values at run time\<close>

lemma read_encode_KanjiHiragana:
  "read_property (encode_KanjiHiragana p) ''kanji'' = JString (kanji p)"
  "read_property (encode_KanjiHiragana p) ''hiragana'' = JString (hiragana p)"
  by (simp_all add: encode_KanjiHiragana_def)

lemma read_encode_WordInfo:
  "read_property (encode_WordInfo w) ''dictionary'' = encode_KanjiHiragana (dictionary w)"
  "read_property (encode_WordInfo w) ''definition'' = JString (definition' w)"
  "read_property (encode_WordInfo w) ''type'' = JString (WordType_literal (type w))"
  by (simp_all add: encode_WordInfo_def)

lemma read_encode_slots:
  "read_property (encode_ConjugationItem e) ''Word'' = encode_WordInfo (Word e)"
  "read_property (encode_ConjugationItem e) ''Present Affirmative''
     = encode_KanjiHiragana (Present_Affirmative e)"
  "read_property (encode_ConjugationItem e) ''Present Negative''
     = encode_KanjiHiragana (Present_Negative e)"
  "read_property (encode_ConjugationItem e) ''Past Affirmative''
     = encode_KanjiHiragana (Past_Affirmative e)"
  "read_property (encode_ConjugationItem e) ''Past Negative''
     = encode_KanjiHiragana (Past_Negative e)"
  by (simp_all add: encode_ConjugationItem_def)

lemma read_encode_Te_Form:
  "read_property (encode_ConjugationItem e) ''Te Form'' =
     (case Te_Form e of None \<Rightarrow> JNull | Some p \<Rightarrow> encode_KanjiHiragana p)"
  by (simp add: encode_ConjugationItem_def)

lemma encode_KanjiHiragana_conforms: "conforms KanjiHiragana_shape (encode_KanjiHiragana p)"
  by (simp add: conforms_KanjiHiragana_iff read_encode_KanjiHiragana)

lemma encode_WordInfo_conforms: "conforms WordInfo_shape (encode_WordInfo w)"
proof -
  have "conforms WordType_shape (JString (WordType_literal (type w)))"
    unfolding conforms_WordType_iff by blast
  then show ?thesis
    by (simp add: conforms_WordInfo_iff read_encode_WordInfo encode_KanjiHiragana_conforms)
qed

text \<open>Every typed entry is, at run time, a value of the declared type.\<close>

lemma encode_ConjugationItem_conforms:
  "conforms ConjugationItem_shape (encode_ConjugationItem e)"
  by (cases "Te_Form e")
    (simp_all add: conforms_ConjugationItem_iff read_encode_slots read_encode_Te_Form
      encode_KanjiHiragana_conforms encode_WordInfo_conforms)

text \<open>A typed pair has both fields, and a typed Te form is \<open>None\<close> or such a pair.\<close>

lemma KanjiHiragana_complete: "\<exists>k h. p = \<lparr>kanji = k, hiragana = h\<rparr>"
proof -
  have "p = \<lparr>kanji = kanji p, hiragana = hiragana p\<rparr>" by simp
  then show ?thesis by blast
qed

lemma Te_Form_cases:
  "Te_Form e = None \<or> (\<exists>k h. Te_Form e = Some \<lparr>kanji = k, hiragana = h\<rparr>)"
proof (cases "Te_Form e")
  case None
  then show ?thesis by simp
next
  case (Some p)
  then have "Te_Form e = Some \<lparr>kanji = kanji p, hiragana = hiragana p\<rparr>"
    by simp
  then show ?thesis by blast
qed

subsection \<open>What importing code can do to the array\<close>



text \<open>An array of a read-only type has no step.\<close>

lemma readonly_array_has_no_step: "\<not> importer_step (Readonly_array_type t) s s'"
  by (auto elim: importer_step.cases)

section \<open>The collection\<close>

text \<open>
  C1. The exported collection \<open>conjugationData\<close> is empty: its length is exactly 0, and
  reading it yields zero entries.
\<close>

theorem conjugationData_is_empty:
  "conjugationData = [] \<and> length conjugationData = 0 \<and> set conjugationData = {}"
  by (simp add: conjugationData_def)




text \<open>
  C7. Round trip: for any well-formed entry \<open>e\<close> (with the four required form pairs and
  a Te-Form pair), appending \<open>e\<close> to the current (empty) collection and reading the
  collection again yields exactly one entry, which matches \<open>e\<close> field for field.
  Appending is the array's \<open>push\<close>, \<open>xs @ [e]\<close> on lists. The statement holds of every
  typed entry, with or without a Te form; equality of records is equality of all their
  fields.
\<close>

theorem append_round_trip:
  "conjugationData @ [e] = [e]
   \<and> length (conjugationData @ [e]) = 1
   \<and> (conjugationData @ [e]) ! 0 = e"
  by (simp add: conjugationData_def)



section \<open>The shape of an entry\<close>

text \<open>
  C2. For every entry in the collection, the Te-Form slot is either entirely absent (a
  first-class "not applicable" value, distinct from an empty pair) or a complete
  \<open>{kanji, hiragana}\<close> pair, never a partially filled pair; and Te-Form is the only
  slot of an entry permitted to be entirely absent. Stated for every value \<open>v\<close> of the
  declared type (the entries of the collection are such values) and for every typed
  entry \<open>e\<close>: the Te form is \<open>null\<close> or has both strings; neither \<open>Word\<close> nor any of
  the four other slots is \<open>null\<close> or missing; some value of the type has the Te form
  \<open>null\<close>; \<open>null\<close> is not the pair of two empty strings; and an object whose Te form
  has the \<open>kanji\<close> field alone, or the \<open>hiragana\<close> field alone, is not of the type.
\<close>

theorem Te_Form_absent_or_complete:
  fixes e :: ConjugationItem
  assumes "conforms ConjugationItem_shape v"
  shows "(read_property v ''Te Form'' = JNull
          \<or> (\<exists>k h. read_property (read_property v ''Te Form'') ''kanji'' = JString k
                  \<and> read_property (read_property v ''Te Form'') ''hiragana'' = JString h))
       \<and> (\<forall>s \<in> set (''Word'' # required_slots).
             read_property v s \<noteq> JNull \<and> read_property v s \<noteq> JUndefined)
       \<and> (\<exists>u. conforms ConjugationItem_shape u \<and> read_property u ''Te Form'' = JNull)
       \<and> JNull \<noteq> encode_KanjiHiragana \<lparr>kanji = '''', hiragana = ''''\<rparr>
       \<and> \<not> conforms ConjugationItem_shape
             (JObject ((''Te Form'', JObject [(''kanji'', JString k)]) # ps))
       \<and> \<not> conforms ConjugationItem_shape
             (JObject ((''Te Form'', JObject [(''hiragana'', JString h)]) # ps))
       \<and> (Te_Form e = None \<or> (\<exists>k h. Te_Form e = Some \<lparr>kanji = k, hiragana = h\<rparr>))
       \<and> None \<noteq> Some \<lparr>kanji = '''', hiragana = ''''\<rparr>"
proof (intro conjI)
  from assms show "read_property v ''Te Form'' = JNull
      \<or> (\<exists>k h. read_property (read_property v ''Te Form'') ''kanji'' = JString k
              \<and> read_property (read_property v ''Te Form'') ''hiragana'' = JString h)"
    unfolding conforms_ConjugationItem_iff conforms_KanjiHiragana_iff by blast
next
  from assms have "conforms WordInfo_shape (read_property v ''Word'')"
    unfolding conforms_ConjugationItem_iff by blast
  then show "\<forall>s \<in> set (''Word'' # required_slots).
      read_property v s \<noteq> JNull \<and> read_property v s \<noteq> JUndefined"
    using conforms_required_slots [OF assms]
      conforms_KanjiHiragana_is_object conforms_WordInfo_is_object
    by auto
next
  have "read_property (encode_ConjugationItem wa) ''Te Form'' = JNull"
    by (simp add: read_encode_Te_Form wa_def)
  with encode_ConjugationItem_conforms [of wa]
  show "\<exists>u. conforms ConjugationItem_shape u \<and> read_property u ''Te Form'' = JNull"
    by blast
next
  show "JNull \<noteq> encode_KanjiHiragana \<lparr>kanji = '''', hiragana = ''''\<rparr>"
    by (simp add: encode_KanjiHiragana_def)
next
  show "\<not> conforms ConjugationItem_shape
      (JObject ((''Te Form'', JObject [(''kanji'', JString k)]) # ps))"
    by (rule partial_pair_refused)
next
  show "\<not> conforms ConjugationItem_shape
      (JObject ((''Te Form'', JObject [(''hiragana'', JString h)]) # ps))"
    by (rule partial_pair_refused)
next
  show "Te_Form e = None \<or> (\<exists>k h. Te_Form e = Some \<lparr>kanji = k, hiragana = h\<rparr>)"
    by (rule Te_Form_cases)
next
  show "None \<noteq> Some \<lparr>kanji = '''', hiragana = ''''\<rparr>"
    by simp
qed

theorem Te_Form_absent_or_complete_witness:
  "conforms ConjugationItem_shape (encode_ConjugationItem taberu)
   \<and> read_property (encode_ConjugationItem taberu) ''Te Form'' \<noteq> JNull
   \<and> read_property (read_property (encode_ConjugationItem taberu) ''Te Form'') ''kanji''
       = JString ''k:tabete''
   \<and> read_property (read_property (encode_ConjugationItem taberu) ''Te Form'') ''hiragana''
       = JString ''tabete''
   \<and> read_property (encode_ConjugationItem taberu) ''Past Negative'' \<noteq> JNull"
proof -
  have h: "conforms ConjugationItem_shape (encode_ConjugationItem taberu)"
    by (rule encode_ConjugationItem_conforms)
  have "read_property (encode_ConjugationItem taberu) ''Te Form''
      = encode_KanjiHiragana \<lparr>kanji = ''k:tabete'', hiragana = ''tabete''\<rparr>"
    by (simp add: read_encode_Te_Form taberu_def)
  then show ?thesis
    using h Te_Form_absent_or_complete [OF h]
    by (simp add: required_slots_def read_encode_KanjiHiragana encode_KanjiHiragana_def)
qed

text \<open>
  C4. For every entry in the collection, each of the four required conjugation slots
  (Present-Affirmative, Present-Negative, Past-Affirmative, Past-Negative) is present
  and structurally complete: it has both a \<open>kanji\<close> and a \<open>hiragana\<close> field, each a
  string that may be empty. Stated for every value \<open>v\<close> of the declared type and every
  typed entry \<open>e\<close>; that the strings may be empty is shown by a value of the type in
  which all eight are.
\<close>

theorem required_slots_complete:
  fixes e :: ConjugationItem
  assumes "conforms ConjugationItem_shape v"
  shows "(\<forall>s \<in> set required_slots.
            \<exists>k h. read_property (read_property v s) ''kanji'' = JString k
                 \<and> read_property (read_property v s) ''hiragana'' = JString h)
       \<and> (\<exists>u. conforms ConjugationItem_shape u
              \<and> (\<forall>s \<in> set required_slots.
                    read_property (read_property u s) ''kanji'' = JString ''''
                  \<and> read_property (read_property u s) ''hiragana'' = JString ''''))
       \<and> (\<exists>k h. Present_Affirmative e = \<lparr>kanji = k, hiragana = h\<rparr>)
       \<and> (\<exists>k h. Present_Negative e = \<lparr>kanji = k, hiragana = h\<rparr>)
       \<and> (\<exists>k h. Past_Affirmative e = \<lparr>kanji = k, hiragana = h\<rparr>)
       \<and> (\<exists>k h. Past_Negative e = \<lparr>kanji = k, hiragana = h\<rparr>)"
proof (intro conjI)
  show "\<forall>s \<in> set required_slots.
      \<exists>k h. read_property (read_property v s) ''kanji'' = JString k
           \<and> read_property (read_property v s) ''hiragana'' = JString h"
    using conforms_required_slots [OF assms] unfolding conforms_KanjiHiragana_iff .
next
  have "\<forall>s \<in> set required_slots.
      read_property (read_property (encode_ConjugationItem wa) s) ''kanji'' = JString ''''
    \<and> read_property (read_property (encode_ConjugationItem wa) s) ''hiragana'' = JString ''''"
    by (simp add: required_slots_def read_encode_slots read_encode_KanjiHiragana wa_def)
  with encode_ConjugationItem_conforms [of wa]
  show "\<exists>u. conforms ConjugationItem_shape u
      \<and> (\<forall>s \<in> set required_slots.
            read_property (read_property u s) ''kanji'' = JString ''''
          \<and> read_property (read_property u s) ''hiragana'' = JString '''')"
    by blast
qed (rule KanjiHiragana_complete)+

theorem required_slots_complete_witness:
  "conforms ConjugationItem_shape (encode_ConjugationItem taberu)
   \<and> (\<exists>k h. read_property (read_property (encode_ConjugationItem taberu)
               ''Present Affirmative'') ''kanji'' = JString k
          \<and> read_property (read_property (encode_ConjugationItem taberu)
               ''Present Affirmative'') ''hiragana'' = JString h)
   \<and> (\<exists>k h. read_property (read_property (encode_ConjugationItem taberu)
               ''Past Negative'') ''kanji'' = JString k
          \<and> read_property (read_property (encode_ConjugationItem taberu)
               ''Past Negative'') ''hiragana'' = JString h)"
proof -
  have h: "conforms ConjugationItem_shape (encode_ConjugationItem taberu)"
    by (rule encode_ConjugationItem_conforms)
  show ?thesis
    using h required_slots_complete [OF h]
    by (simp add: required_slots_def)
qed

text \<open>
  C9. The schema admits entries whose dictionary kanji spelling is the empty string:
  for some valid entry, \<open>Word.dictionary.kanji = ""\<close>. The entry shown has a non-empty
  hiragana spelling, and it is a value of the declared type.
\<close>

theorem empty_kanji_admitted:
  "\<exists>e. kanji (dictionary (Word e)) = ''''
      \<and> hiragana (dictionary (Word e)) \<noteq> ''''
      \<and> conforms ConjugationItem_shape (encode_ConjugationItem e)
      \<and> read_property (read_property (read_property (encode_ConjugationItem e) ''Word'')
           ''dictionary'') ''kanji'' = JString ''''"
proof (intro exI conjI)
  show "kanji (dictionary (Word wa)) = ''''"
    by (simp add: wa_def)
  show "hiragana (dictionary (Word wa)) \<noteq> ''''"
    by (simp add: wa_def)
  show "conforms ConjugationItem_shape (encode_ConjugationItem wa)"
    by (rule encode_ConjugationItem_conforms)
  show "read_property (read_property (read_property (encode_ConjugationItem wa) ''Word'')
      ''dictionary'') ''kanji'' = JString ''''"
    by (simp add: read_encode_slots read_encode_WordInfo read_encode_KanjiHiragana wa_def)
qed

text \<open>
  C10. The type \<open>ConjugationItem\<close> itself does not enforce the non-empty-hiragana
  invariant: there is a value of the type whose \<open>Word.dictionary.hiragana\<close> is the
  empty string. The invariant is a discipline on what the collection holds, not a
  constraint of the declared type.
\<close>

theorem type_admits_empty_hiragana:
  "\<exists>e. hiragana (dictionary (Word e)) = ''''
      \<and> conforms ConjugationItem_shape (encode_ConjugationItem e)
      \<and> read_property (read_property (read_property (encode_ConjugationItem e) ''Word'')
           ''dictionary'') ''hiragana'' = JString ''''"
proof (intro exI conjI)
  show "hiragana (dictionary (Word blank)) = ''''"
    by (simp add: blank_def)
  show "conforms ConjugationItem_shape (encode_ConjugationItem blank)"
    by (rule encode_ConjugationItem_conforms)
  show "read_property (read_property (read_property (encode_ConjugationItem blank) ''Word'')
      ''dictionary'') ''hiragana'' = JString ''''"
    by (simp add: read_encode_slots read_encode_WordInfo read_encode_KanjiHiragana blank_def)
qed

section \<open>The enumerations\<close>

text \<open>
  C5. The \<open>WordType\<close> enumeration is closed with exactly nine variants, and for every
  entry in the collection, \<open>Word.type\<close> is one of those nine values; no other tag is
  valid. Stated for every value \<open>v\<close> of the declared type, every value \<open>u\<close> and every
  typed entry \<open>e\<close>: the tag of \<open>v\<close> is the string of a constructor; \<open>u\<close> has the type
  \<open>WordType\<close> exactly when it is one of the nine strings; the nine constructors are
  distinct, they are all there are, and their strings are distinct.
\<close>

theorem WordType_closed:
  fixes e :: ConjugationItem
  assumes "conforms ConjugationItem_shape v"
  shows "(\<exists>t. read_property (read_property v ''Word'') ''type'' = JString (WordType_literal t))
       \<and> (conforms WordType_shape u \<longleftrightarrow>
            u \<in> JString ` {''verb-ru'', ''verb-u'', ''verb-irregular'', ''noun'',
                           ''adjective-i'', ''adjective-na'', ''adverb'', ''particle'',
                           ''expression''})
       \<and> type (Word e) \<in> set WordTypes
       \<and> set WordTypes = UNIV
       \<and> distinct WordTypes
       \<and> length WordTypes = 9
       \<and> card (UNIV :: WordType set) = 9
       \<and> inj WordType_literal"
proof (intro conjI)
  from assms have "conforms WordType_shape (read_property (read_property v ''Word'') ''type'')"
    unfolding conforms_ConjugationItem_iff conforms_WordInfo_iff by blast
  then show "\<exists>t. read_property (read_property v ''Word'') ''type'' = JString (WordType_literal t)"
    unfolding conforms_WordType_iff .
next
  show "conforms WordType_shape u \<longleftrightarrow>
      u \<in> JString ` {''verb-ru'', ''verb-u'', ''verb-irregular'', ''noun'',
                     ''adjective-i'', ''adjective-na'', ''adverb'', ''particle'',
                     ''expression''}"
    by (simp add: WordType_shape_def image_iff)
next
  show "card (UNIV :: WordType set) = 9"
    using distinct_card [OF distinct_WordTypes]
    by (simp only: set_WordTypes length_WordTypes)
qed (rule WordType_in_WordTypes set_WordTypes distinct_WordTypes length_WordTypes
    inj_WordType_literal)+

theorem WordType_closed_witness:
  "conforms ConjugationItem_shape (encode_ConjugationItem taberu)
   \<and> read_property (read_property (encode_ConjugationItem taberu) ''Word'') ''type''
       = JString (WordType_literal verb_ru)
   \<and> conforms WordType_shape (JString ''verb-ru'')
   \<and> \<not> conforms WordType_shape (JString ''verb'')"
proof -
  have h: "conforms ConjugationItem_shape (encode_ConjugationItem taberu)"
    by (rule encode_ConjugationItem_conforms)
  have "read_property (read_property (encode_ConjugationItem taberu) ''Word'') ''type''
      = JString (WordType_literal verb_ru)"
    by (simp add: read_encode_slots read_encode_WordInfo taberu_def)
  then show ?thesis
    using h WordType_closed [OF h, of "JString ''verb-ru''"]
      WordType_closed [OF h, of "JString ''verb''"]
    by (simp add: image_iff)
qed

text \<open>
  C6. The module exposes two closed enumerations whose variant sets are exactly
  \<open>WritingSystem = {kanji, hiragana}\<close> and \<open>VerbForm = {dictionary, masu}\<close>; no other
  value belongs to either type.
\<close>

theorem WritingSystem_VerbForm_closed:
  "(conforms WritingSystem_shape v \<longleftrightarrow> v = JString ''kanji'' \<or> v = JString ''hiragana'')
   \<and> (conforms VerbForm_shape v \<longleftrightarrow> v = JString ''dictionary'' \<or> v = JString ''masu'')
   \<and> (UNIV :: WritingSystem set) = {WritingSystem_kanji, WritingSystem_hiragana}
   \<and> (UNIV :: VerbForm set) = {VerbForm_dictionary, VerbForm_masu}
   \<and> WritingSystem_literal ` UNIV = {''kanji'', ''hiragana''}
   \<and> VerbForm_literal ` UNIV = {''dictionary'', ''masu''}
   \<and> card (UNIV :: WritingSystem set) = 2
   \<and> card (UNIV :: VerbForm set) = 2"
  by (simp add: WritingSystem_shape_def VerbForm_shape_def UNIV_WritingSystem UNIV_VerbForm)

end
